theory Spec2Isabelle
  imports Complex_Main "HOL-Library.Word"
begin

unbundle bit_operations_syntax

section \<open>JavaScript values\<close>

text \<open>
  The worker is TypeScript whose events are typed \<open>any\<close>, so the model keeps JavaScript's
  own data: a string is a sequence of UTF-16 code units, a byte array (\<open>Uint8Array\<close>,
  \<open>ArrayBuffer\<close>) a sequence of octets, and a value read from the webhook body is a JSON value
  or \<open>undefined\<close>.
\<close>

type_synonym byte = "8 word"
type_synonym jsstring = "16 word list"

definition js :: "string \<Rightarrow> jsstring" where
  "js s = map (\<lambda>c. of_nat (of_char c)) s"

datatype js_error =
    DataError
  | InvalidCharacterError
  | SyntaxError
  | TypeError
  | FetchError
  | ApiError nat jsstring

datatype jsvalue =
    JUndefined
  | JNull
  | JBool bool
  | JNum real
  | JStr jsstring
  | JArr "jsvalue list"
  | JObj "(jsstring \<times> jsvalue) list"

section \<open>The platform functions used by \<open>validateSignature\<close>\<close>

subsection \<open>\<open>TextEncoder.encode\<close>\<close>

text \<open>
  \<open>TextEncoder.encode\<close> turns the string into scalar values (a high surrogate followed by a
  low surrogate is one supplementary code point, any other surrogate becomes U+FFFD) and
  writes them in UTF-8.
\<close>

definition is_high_surrogate :: "16 word \<Rightarrow> bool" where
  "is_high_surrogate u = (0xD800 \<le> u \<and> u \<le> 0xDBFF)"

definition is_low_surrogate :: "16 word \<Rightarrow> bool" where
  "is_low_surrogate u = (0xDC00 \<le> u \<and> u \<le> 0xDFFF)"

definition utf8_bytes :: "nat \<Rightarrow> byte list" where
  "utf8_bytes cp =
     (if cp < 0x80 then [of_nat cp]
      else if cp < 0x800 then [of_nat (0xC0 + cp div 64), of_nat (0x80 + cp mod 64)]
      else if cp < 0x10000 then
        [of_nat (0xE0 + cp div 4096), of_nat (0x80 + cp div 64 mod 64), of_nat (0x80 + cp mod 64)]
      else
        [of_nat (0xF0 + cp div 262144), of_nat (0x80 + cp div 4096 mod 64),
         of_nat (0x80 + cp div 64 mod 64), of_nat (0x80 + cp mod 64)])"

definition encode_unit :: "16 word \<Rightarrow> byte list" where
  "encode_unit u =
     (if is_high_surrogate u \<or> is_low_surrogate u then utf8_bytes 0xFFFD
      else utf8_bytes (unat u))"

definition encode_pair :: "16 word \<Rightarrow> 16 word \<Rightarrow> byte list" where
  "encode_pair hi lo = utf8_bytes (0x10000 + (unat hi - 0xD800) * 1024 + (unat lo - 0xDC00))"

fun encode :: "jsstring \<Rightarrow> byte list" where
  "encode [] = []"
| "encode [u] = encode_unit u"
| "encode (u # l # rest) =
     (if is_high_surrogate u \<and> is_low_surrogate l then encode_pair u l @ encode rest
      else encode_unit u @ encode (l # rest))"

subsection \<open>SHA-256 and HMAC (\<open>crypto.subtle.sign\<close> with \<open>{name: "HMAC", hash: "SHA-256"}\<close>)\<close>

type_synonym sha_state =
  "32 word \<times> 32 word \<times> 32 word \<times> 32 word \<times> 32 word \<times> 32 word \<times> 32 word \<times> 32 word"

definition K256 :: "32 word list" where
  "K256 =
    [0x428A2F98, 0x71374491, 0xB5C0FBCF, 0xE9B5DBA5, 0x3956C25B, 0x59F111F1, 0x923F82A4, 0xAB1C5ED5,
     0xD807AA98, 0x12835B01, 0x243185BE, 0x550C7DC3, 0x72BE5D74, 0x80DEB1FE, 0x9BDC06A7, 0xC19BF174,
     0xE49B69C1, 0xEFBE4786, 0x0FC19DC6, 0x240CA1CC, 0x2DE92C6F, 0x4A7484AA, 0x5CB0A9DC, 0x76F988DA,
     0x983E5152, 0xA831C66D, 0xB00327C8, 0xBF597FC7, 0xC6E00BF3, 0xD5A79147, 0x06CA6351, 0x14292967,
     0x27B70A85, 0x2E1B2138, 0x4D2C6DFC, 0x53380D13, 0x650A7354, 0x766A0ABB, 0x81C2C92E, 0x92722C85,
     0xA2BFE8A1, 0xA81A664B, 0xC24B8B70, 0xC76C51A3, 0xD192E819, 0xD6990624, 0xF40E3585, 0x106AA070,
     0x19A4C116, 0x1E376C08, 0x2748774C, 0x34B0BCB5, 0x391C0CB3, 0x4ED8AA4A, 0x5B9CCA4F, 0x682E6FF3,
     0x748F82EE, 0x78A5636F, 0x84C87814, 0x8CC70208, 0x90BEFFFA, 0xA4506CEB, 0xBEF9A3F7, 0xC67178F2]"

definition H256 :: sha_state where
  "H256 = (0x6A09E667, 0xBB67AE85, 0x3C6EF372, 0xA54FF53A,
           0x510E527F, 0x9B05688C, 0x1F83D9AB, 0x5BE0CD19)"

definition Ch :: "32 word \<Rightarrow> 32 word \<Rightarrow> 32 word \<Rightarrow> 32 word" where
  "Ch x y z = (x AND y) XOR (NOT x AND z)"

definition Maj :: "32 word \<Rightarrow> 32 word \<Rightarrow> 32 word \<Rightarrow> 32 word" where
  "Maj x y z = (x AND y) XOR (x AND z) XOR (y AND z)"

definition bsig0 :: "32 word \<Rightarrow> 32 word" where
  "bsig0 x = word_rotr 2 x XOR word_rotr 13 x XOR word_rotr 22 x"

definition bsig1 :: "32 word \<Rightarrow> 32 word" where
  "bsig1 x = word_rotr 6 x XOR word_rotr 11 x XOR word_rotr 25 x"

definition ssig0 :: "32 word \<Rightarrow> 32 word" where
  "ssig0 x = word_rotr 7 x XOR word_rotr 18 x XOR drop_bit 3 x"

definition ssig1 :: "32 word \<Rightarrow> 32 word" where
  "ssig1 x = word_rotr 17 x XOR word_rotr 19 x XOR drop_bit 10 x"

definition be64 :: "nat \<Rightarrow> byte list" where
  "be64 n = map (\<lambda>i. ucast (drop_bit (8 * (7 - i)) (of_nat n :: 64 word))) [0..<8]"

definition pad :: "byte list \<Rightarrow> byte list" where
  "pad m = m @ [0x80] @ replicate ((119 - length m mod 64) mod 64) 0 @ be64 (8 * length m)"

fun blocks :: "byte list \<Rightarrow> byte list list" where
  "blocks bs = (if length bs < 64 then [] else take 64 bs # blocks (drop 64 bs))"

definition be32 :: "byte list \<Rightarrow> 32 word" where
  "be32 bs = foldl (\<lambda>w b. push_bit 8 w OR ucast b) 0 bs"

definition block_words :: "byte list \<Rightarrow> 32 word list" where
  "block_words blk = map (\<lambda>i. be32 (take 4 (drop (4 * i) blk))) [0..<16]"

fun schedule :: "32 word list \<Rightarrow> nat \<Rightarrow> 32 word list" where
  "schedule w 0 = w"
| "schedule w (Suc n) =
     (let t = length w
      in schedule (w @ [ssig1 (w ! (t - 2)) + w ! (t - 7) + ssig0 (w ! (t - 15)) + w ! (t - 16)]) n)"

definition round256 :: "32 word \<times> 32 word \<Rightarrow> sha_state \<Rightarrow> sha_state" where
  "round256 kw s =
     (case (kw, s) of ((k, w), (a, b, c, d, e, f, g, h)) \<Rightarrow>
        let T1 = h + bsig1 e + Ch e f g + k + w;
            T2 = bsig0 a + Maj a b c
        in (T1 + T2, a, b, c, d + T1, e, f, g))"

definition add_state :: "sha_state \<Rightarrow> sha_state \<Rightarrow> sha_state" where
  "add_state s t =
     (case (s, t) of ((a, b, c, d, e, f, g, h), (a', b', c', d', e', f', g', h')) \<Rightarrow>
        (a + a', b + b', c + c', d + d', e + e', f + f', g + g', h + h'))"

definition compress :: "byte list \<Rightarrow> sha_state \<Rightarrow> sha_state" where
  "compress blk s = add_state s (fold round256 (zip K256 (schedule (block_words blk) 48)) s)"

definition word_bytes :: "32 word \<Rightarrow> byte list" where
  "word_bytes w = [ucast (drop_bit 24 w), ucast (drop_bit 16 w), ucast (drop_bit 8 w), ucast w]"

definition state_bytes :: "sha_state \<Rightarrow> byte list" where
  "state_bytes s =
     (case s of (a, b, c, d, e, f, g, h) \<Rightarrow> concat (map word_bytes [a, b, c, d, e, f, g, h]))"

definition sha256 :: "byte list \<Rightarrow> byte list" where
  "sha256 m = state_bytes (fold compress (blocks (pad m)) H256)"

definition hmac_sha256 :: "byte list \<Rightarrow> byte list \<Rightarrow> byte list" where
  "hmac_sha256 key m =
     (let k0 = (if 64 < length key then sha256 key else key);
          k = k0 @ replicate (64 - length k0) 0
      in sha256 (map (\<lambda>b. b XOR 0x5c) k @ sha256 (map (\<lambda>b. b XOR 0x36) k @ m)))"

text \<open>\<open>crypto.subtle.importKey("raw", keyData, HMAC, ...)\<close> refuses a key of length zero.\<close>

definition importKey :: "byte list \<Rightarrow> js_error + byte list" where
  "importKey keyData = (if keyData = [] then Inl DataError else Inr keyData)"

definition sign :: "byte list \<Rightarrow> byte list \<Rightarrow> byte list" where
  "sign key data = hmac_sha256 key data"

subsection \<open>\<open>String.fromCharCode\<close> and \<open>btoa\<close>\<close>

definition fromCharCode :: "byte list \<Rightarrow> jsstring" where
  "fromCharCode bs = map ucast bs"

definition b64_alphabet :: jsstring where
  "b64_alphabet = js ''ABCDEFGHIJKLMNOPQRSTUVWXYZabcdefghijklmnopqrstuvwxyz0123456789+/''"

definition b64_char :: "nat \<Rightarrow> 16 word" where
  "b64_char n = b64_alphabet ! n"

definition b64_pad :: "16 word" where
  "b64_pad = 0x3D"

fun base64 :: "byte list \<Rightarrow> jsstring" where
  "base64 [] = []"
| "base64 [a] =
     [b64_char (unat a div 4), b64_char (unat a mod 4 * 16), b64_pad, b64_pad]"
| "base64 [a, b] =
     [b64_char (unat a div 4), b64_char (unat a mod 4 * 16 + unat b div 16),
      b64_char (unat b mod 16 * 4), b64_pad]"
| "base64 (a # b # c # rest) =
     [b64_char (unat a div 4), b64_char (unat a mod 4 * 16 + unat b div 16),
      b64_char (unat b mod 16 * 4 + unat c div 64), b64_char (unat c mod 64)] @ base64 rest"

text \<open>\<open>btoa\<close> throws on a code unit above 0xFF and encodes the others as octets.\<close>

definition btoa :: "jsstring \<Rightarrow> js_error + jsstring" where
  "btoa s =
     (if list_ex (\<lambda>u. 0xFF < u) s then Inl InvalidCharacterError
      else Inr (base64 (map ucast s)))"

section \<open>\<open>validateSignature\<close>\<close>

definition validateSignature :: "jsstring \<Rightarrow> jsstring \<Rightarrow> jsstring \<Rightarrow> js_error + bool" where
  "validateSignature secret body signature =
     (let keyData = encode secret;
          bodyData = encode body
      in case importKey keyData of
           Inl e \<Rightarrow> Inl e
         | Inr key \<Rightarrow>
             let sig = sign key bodyData
             in case btoa (fromCharCode sig) of
                  Inl e \<Rightarrow> Inl e
                | Inr expectedSignature \<Rightarrow> Inr (expectedSignature = signature))"

section \<open>Reading the event\<close>

text \<open>
  A property read faults on \<open>undefined\<close> and \<open>null\<close>. The names the worker reads
  (\<open>events\<close>, \<open>message\<close>, \<open>replyToken\<close>, \<open>type\<close>, \<open>id\<close>, \<open>source\<close>, \<open>userId\<close>) are on no
  built-in prototype, so a primitive or an array has none of them. An object is the list
  of its own properties, and the first binding of a name is its value.
\<close>

fun get_prop :: "jsvalue \<Rightarrow> jsstring \<Rightarrow> js_error + jsvalue" where
  "get_prop JUndefined k = Inl TypeError"
| "get_prop JNull k = Inl TypeError"
| "get_prop (JObj kvs) k = Inr (case map_of kvs k of None \<Rightarrow> JUndefined | Some v \<Rightarrow> v)"
| "get_prop (JBool b) k = Inr JUndefined"
| "get_prop (JNum r) k = Inr JUndefined"
| "get_prop (JStr s) k = Inr JUndefined"
| "get_prop (JArr xs) k = Inr JUndefined"

fun truthy :: "jsvalue \<Rightarrow> bool" where
  "truthy JUndefined = False"
| "truthy JNull = False"
| "truthy (JBool b) = b"
| "truthy (JNum r) = (r \<noteq> 0)"
| "truthy (JStr s) = (s \<noteq> [])"
| "truthy (JArr xs) = True"
| "truthy (JObj kvs) = True"

text \<open>\<open>Array.prototype.includes\<close> on an array of strings: only the same string is included.\<close>

definition includes_str :: "jsstring list \<Rightarrow> jsvalue \<Rightarrow> bool" where
  "includes_str xs v = list_ex (\<lambda>s. v = JStr s) xs"

section \<open>The outside world\<close>

record env =
  LINE_CHANNEL_SECRET :: jsstring
  LINE_CHANNEL_ACCESS_TOKEN :: jsstring
  ELEVENLABS_API_KEY :: jsstring

text \<open>
  The three \<open>fetch\<close> calls of the worker, by what varies in them:
  \<^item> \<open>LoadingStart token chatId\<close>: POST \<open>https://api.line.me/v2/bot/chat/loading/start\<close>,
    bearer \<open>token\<close>, JSON body \<open>{chatId}\<close>;
  \<^item> \<open>ContentGet token id\<close>: GET \<open>https://api-data.line.me/v2/bot/message/${id}/content\<close>,
    bearer \<open>token\<close>;
  \<^item> \<open>ReplyPost token replyToken texts\<close>: POST \<open>https://api.line.me/v2/bot/message/reply\<close>,
    bearer \<open>token\<close>, JSON body \<open>{replyToken, messages}\<close> with one
    \<open>{type: "text", text}\<close> for each of \<open>texts\<close>.
\<close>

datatype fetch_request =
    LoadingStart jsstring jsvalue
  | ContentGet jsstring jsvalue
  | ReplyPost jsstring jsvalue "jsstring list"

text \<open>
  An outbound call is a \<open>fetch\<close> or \<open>client.speechToText.convert\<close> of the client built with
  an API key (\<open>Convert apiKey file model_id tag_audio_events\<close>).
\<close>

datatype call =
    Fetch fetch_request
  | Convert jsstring "byte list" jsstring bool

text \<open>
  \<open>fetch\<close> rejects when the request cannot be made and resolves to a response for every
  HTTP status. Reading the body (\<open>arrayBuffer\<close>) can fail too. The transcription client
  throws on a response that is not a success (an \<open>ApiError\<close> with the status and the body),
  and returns the parsed result otherwise.
\<close>

record response =
  status :: nat
  arrayBuffer :: "js_error + byte list"

record stt_result =
  result_text :: "jsstring option"
  language_code :: "jsstring option"

record net =
  fetch :: "fetch_request \<Rightarrow> js_error + response"
  convert :: "call \<Rightarrow> js_error + stt_result"

text \<open>
  A run of a handler: the outbound calls it made, in order, and how its promise settled.
  The \<open>console.log\<close> calls of the worker are left out; they do not change a run.
\<close>

type_synonym run = "call list \<times> (js_error + response)"

section \<open>\<open>replyText\<close> and \<open>handleEvent\<close>\<close>

definition replyText :: "net \<Rightarrow> jsstring \<Rightarrow> jsvalue \<Rightarrow> jsstring list \<Rightarrow> run" where
  "replyText n token replyToken messages =
     ([Fetch (ReplyPost token replyToken messages)], fetch n (ReplyPost token replyToken messages))"

text \<open>A template literal writes an absent string as \<open>undefined\<close>.\<close>

definition template :: "jsstring option \<Rightarrow> jsstring" where
  "template v = (case v of None \<Rightarrow> js ''undefined'' | Some s \<Rightarrow> s)"

definition after :: "call list \<Rightarrow> run \<Rightarrow> run" where
  "after cs r = (cs @ fst r, snd r)"

definition transcribe :: "net \<Rightarrow> env \<Rightarrow> jsvalue \<Rightarrow> jsvalue \<Rightarrow> jsvalue \<Rightarrow> run" where
  "transcribe n e event message replyToken =
     (case get_prop event (js ''source'') of
        Inl err \<Rightarrow> ([], Inl err)
      | Inr source \<Rightarrow>
     (case get_prop source (js ''userId'') of
        Inl err \<Rightarrow> ([], Inl err)
      | Inr userId \<Rightarrow>
     (let loading = LoadingStart (LINE_CHANNEL_ACCESS_TOKEN e) userId
      in case fetch n loading of
        Inl err \<Rightarrow> ([Fetch loading], Inl err)
      | Inr loaded \<Rightarrow>
     (case get_prop message (js ''id'') of
        Inl err \<Rightarrow> ([Fetch loading], Inl err)
      | Inr mid \<Rightarrow>
     (let content = ContentGet (LINE_CHANNEL_ACCESS_TOKEN e) mid
      in case fetch n content of
        Inl err \<Rightarrow> ([Fetch loading, Fetch content], Inl err)
      | Inr mediaResponse \<Rightarrow>
     (case arrayBuffer mediaResponse of
        Inl err \<Rightarrow> ([Fetch loading, Fetch content], Inl err)
      | Inr mediaBlob \<Rightarrow>
     (let conv = Convert (ELEVENLABS_API_KEY e) mediaBlob (js ''scribe_v1'') False
      in case convert n conv of
        Inl err \<Rightarrow> ([Fetch loading, Fetch content, conv], Inl err)
      | Inr result \<Rightarrow>
     (let transcription =
            (case result_text result of
               None \<Rightarrow> js ''Could not transcribe the message.''
             | Some t \<Rightarrow> if t \<noteq> [] then t else js ''Could not transcribe the message.'');
          languageCode = language_code result
      in after [Fetch loading, Fetch content, conv]
           (replyText n (LINE_CHANNEL_ACCESS_TOKEN e) replyToken
              [js ''['' @ template languageCode @ js '']: '' @ transcription])))))))))"

definition handleEvent :: "net \<Rightarrow> env \<Rightarrow> jsvalue \<Rightarrow> run" where
  "handleEvent n e event =
     (case get_prop event (js ''message'') of
        Inl err \<Rightarrow> ([], Inl err)
      | Inr message \<Rightarrow>
     (case get_prop event (js ''replyToken'') of
        Inl err \<Rightarrow> ([], Inl err)
      | Inr replyToken \<Rightarrow>
     (case (if truthy message then get_prop message (js ''type'') else Inr JUndefined) of
        Inl err \<Rightarrow> ([], Inl err)
      | Inr ty \<Rightarrow>
         if \<not> truthy message \<or> \<not> includes_str [js ''audio'', js ''video''] ty
         then replyText n (LINE_CHANNEL_ACCESS_TOKEN e) replyToken
                [js ''Please send an audio or video message.'']
         else transcribe n e event message replyToken)))"

section \<open>The webhook route\<close>

record request =
  bodyText :: jsstring
  x_line_signature :: "jsstring option"

text \<open>
  The route handler returns a response or throws. \<open>Promise.all\<close> rejects with the reason of
  whichever promise rejected first in time, which the model does not order: \<open>Threw\<close> keeps
  every reason that can be the one. What the caller receives when the handler throws is
  the framework's error response, which is not part of the worker.
\<close>

datatype webhook_outcome =
    Responded nat jsstring
  | Threw "js_error list"

record webhook_run =
  outcome :: webhook_outcome
  parsed :: bool
  handlers :: "run list"

definition rejections :: "run list \<Rightarrow> js_error list" where
  "rejections rs = concat (map (\<lambda>r. case snd r of Inl err \<Rightarrow> [err] | Inr v \<Rightarrow> []) rs)"

text \<open>
  \<open>JSON_parse\<close> is the platform's \<open>JSON.parse\<close>; \<open>nets i\<close> is the network as the handler of
  the \<open>i\<close>-th event meets it. \<open>parsed\<close> records whether \<open>JSON.parse\<close> was called.
\<close>

text \<open>\<open>c.req.header("x-line-signature") || ""\<close>\<close>

definition header_signature :: "request \<Rightarrow> jsstring" where
  "header_signature req =
     (case x_line_signature req of
        None \<Rightarrow> []
      | Some h \<Rightarrow> if h \<noteq> [] then h else [])"

text \<open>\<open>events.map((event) => handleEvent(event, env))\<close>: one run for each event.\<close>

definition dispatch :: "(nat \<Rightarrow> net) \<Rightarrow> env \<Rightarrow> jsvalue list \<Rightarrow> run list" where
  "dispatch nets e events = map (\<lambda>(i, event). handleEvent (nets i) e event) (enumerate 0 events)"

definition webhook ::
  "(jsstring \<Rightarrow> js_error + jsvalue) \<Rightarrow> (nat \<Rightarrow> net) \<Rightarrow> env \<Rightarrow> request \<Rightarrow> webhook_run" where
  "webhook JSON_parse nets e req =
     (let signature = header_signature req
      in case validateSignature (LINE_CHANNEL_SECRET e) (bodyText req) signature of
        Inl err \<Rightarrow> \<lparr>outcome = Threw [err], parsed = False, handlers = []\<rparr>
      | Inr valid \<Rightarrow>
          if \<not> valid
          then \<lparr>outcome = Responded 401 (js ''Invalid signature''), parsed = False, handlers = []\<rparr>
          else
     (case JSON_parse (bodyText req) of
        Inl err \<Rightarrow> \<lparr>outcome = Threw [err], parsed = True, handlers = []\<rparr>
      | Inr body \<Rightarrow>
     (case get_prop body (js ''events'') of
        Inl err \<Rightarrow> \<lparr>outcome = Threw [err], parsed = True, handlers = []\<rparr>
      | Inr evs \<Rightarrow>
     (case (if truthy evs then evs else JArr []) of
        JArr events \<Rightarrow>
          (let runs = dispatch nets e events
           in \<lparr>outcome = (if rejections runs = [] then Responded 200 (js ''OK'')
                           else Threw (rejections runs)),
               parsed = True, handlers = runs\<rparr>)
      | _ \<Rightarrow> \<lparr>outcome = Threw [TypeError], parsed = True, handlers = []\<rparr>))))"

section \<open>Reading a run\<close>

fun is_reply :: "call \<Rightarrow> bool" where
  "is_reply (Fetch (ReplyPost token replyToken messages)) = True"
| "is_reply (Fetch (LoadingStart token chatId)) = False"
| "is_reply (Fetch (ContentGet token mid)) = False"
| "is_reply (Convert apiKey file model_id tag) = False"

text \<open>The text of the reply for a transcription result.\<close>

definition reply_text :: "stt_result \<Rightarrow> jsstring" where
  "reply_text result =
     js ''['' @ template (language_code result) @ js '']: '' @
     (case result_text result of
        None \<Rightarrow> js ''Could not transcribe the message.''
      | Some x \<Rightarrow> if x \<noteq> [] then x else js ''Could not transcribe the message.'')"

definition fulfilled :: "run \<Rightarrow> bool" where
  "fulfilled r = (case snd r of Inl err \<Rightarrow> False | Inr v \<Rightarrow> True)"

section \<open>Sample inputs\<close>

definition sample_env :: env where
  "sample_env = \<lparr>LINE_CHANNEL_SECRET = js ''s'', LINE_CHANNEL_ACCESS_TOKEN = js ''token'',
                  ELEVENLABS_API_KEY = js ''key''\<rparr>"

definition unset_env :: env where
  "unset_env = \<lparr>LINE_CHANNEL_SECRET = [], LINE_CHANNEL_ACCESS_TOKEN = js ''token'',
                 ELEVENLABS_API_KEY = js ''key''\<rparr>"

definition audio_event :: jsvalue where
  "audio_event =
     JObj [(js ''replyToken'', JStr (js ''r1'')),
           (js ''source'', JObj [(js ''userId'', JStr (js ''U1''))]),
           (js ''message'', JObj [(js ''type'', JStr (js ''audio'')), (js ''id'', JStr (js ''42''))])]"

definition text_event :: jsvalue where
  "text_event =
     JObj [(js ''replyToken'', JStr (js ''r2'')),
           (js ''source'', JObj [(js ''userId'', JStr (js ''U1''))]),
           (js ''message'', JObj [(js ''type'', JStr (js ''text'')), (js ''id'', JStr (js ''43''))])]"

definition sourceless_event :: jsvalue where
  "sourceless_event =
     JObj [(js ''replyToken'', JStr (js ''r3'')),
           (js ''message'', JObj [(js ''type'', JStr (js ''audio'')), (js ''id'', JStr (js ''44''))])]"

definition media :: response where
  "media = \<lparr>status = 200, arrayBuffer = Inr [1, 2, 3]\<rparr>"

definition bad_request :: response where
  "bad_request = \<lparr>status = 400, arrayBuffer = Inr []\<rparr>"

definition hello :: stt_result where
  "hello = \<lparr>result_text = Some (js ''hello''), language_code = Some (js ''en'')\<rparr>"

text \<open>Every call succeeds and the transcript is \<open>{text: "hello", language_code: "en"}\<close>.\<close>

definition net_hello :: net where
  "net_hello = \<lparr>fetch = (\<lambda>q. Inr media), convert = (\<lambda>c. Inr hello)\<rparr>"

text \<open>The transcription service answers 429 with the body \<open>rate limited\<close>.\<close>

definition net_rate_limited :: net where
  "net_rate_limited =
     \<lparr>fetch = (\<lambda>q. Inr media), convert = (\<lambda>c. Inl (ApiError 429 (js ''rate limited'')))\<rparr>"

text \<open>The loading indicator is answered with status 400.\<close>

definition net_loading_refused :: net where
  "net_loading_refused =
     \<lparr>fetch = (\<lambda>q. case q of LoadingStart token chatId \<Rightarrow> Inr bad_request
                        | ContentGet token mid \<Rightarrow> Inr media
                        | ReplyPost token replyToken messages \<Rightarrow> Inr media),
      convert = (\<lambda>c. Inr hello)\<rparr>"

text \<open>The loading indicator cannot be reached: its \<open>fetch\<close> rejects.\<close>

definition net_loading_down :: net where
  "net_loading_down =
     \<lparr>fetch = (\<lambda>q. case q of LoadingStart token chatId \<Rightarrow> Inl FetchError
                        | ContentGet token mid \<Rightarrow> Inr media
                        | ReplyPost token replyToken messages \<Rightarrow> Inr media),
      convert = (\<lambda>c. Inr hello)\<rparr>"

text \<open>A request that carries the signature of its body under the channel secret.\<close>

definition signed :: "env \<Rightarrow> jsstring \<Rightarrow> request" where
  "signed e body =
     \<lparr>bodyText = body,
      x_line_signature =
        Some (base64 (hmac_sha256 (encode (LINE_CHANNEL_SECRET e)) (encode body)))\<rparr>"

text \<open>The body \<open>{}\<close> with its signature under the secret \<open>s\<close>, written out.\<close>

definition sample_request :: request where
  "sample_request =
     \<lparr>bodyText = js ''{}'',
      x_line_signature = Some (js ''FDyo1Re6GxgQJdcysc8nXZAQT8pXuwKlZVQpeKoYxLY='')\<rparr>"

definition unsigned :: "jsstring \<Rightarrow> request" where
  "unsigned body = \<lparr>bodyText = body, x_line_signature = None\<rparr>"

text \<open>Two envelopes, as their JSON texts; the events are the sample events above.\<close>

definition two_events :: jsstring where
  \<open>two_events = js (''{"events":[{"replyToken":"r1","source":{"userId":"U1"},'' @
     ''"message":{"type":"audio","id":"42"}},{"replyToken":"r2","source":{"userId":"U1"},'' @
     ''"message":{"type":"text","id":"43"}}]}'')\<close>

definition faulty_events :: jsstring where
  \<open>faulty_events = js (''{"events":[{"replyToken":"r3",'' @
     ''"message":{"type":"audio","id":"44"}},{"replyToken":"r2","source":{"userId":"U1"},'' @
     ''"message":{"type":"text","id":"43"}}]}'')\<close>

text \<open>
  \<open>JSON.parse\<close> on the sample bodies: \<open>{}\<close>, the two envelopes, and the malformed text
  \<open>{\<close>. It is not used on any other text.
\<close>

definition parse_samples :: "jsstring \<Rightarrow> js_error + jsvalue" where
  "parse_samples s =
     (if s = js ''{}'' then Inr (JObj [])
      else if s = js ''{'' then Inl SyntaxError
      else if s = two_events then Inr (JObj [(js ''events'', JArr [audio_event, text_event])])
      else if s = faulty_events
        then Inr (JObj [(js ''events'', JArr [sourceless_event, text_event])])
      else Inl SyntaxError)"

section \<open>Facts about the platform functions\<close>

subsection \<open>The digest has 32 octets\<close>

lemma length_word_bytes: "length (word_bytes w) = 4"
  by (simp add: word_bytes_def)

lemma length_state_bytes: "length (state_bytes s) = 32"
  by (simp add: state_bytes_def length_word_bytes split: prod.splits)

lemma length_sha256: "length (sha256 m) = 32"
  by (simp add: sha256_def length_state_bytes)

lemma length_hmac_sha256: "length (hmac_sha256 k m) = 32"
  by (simp add: hmac_sha256_def Let_def length_sha256)

lemma ucast_byte_le: "\<not> 0xFF < (ucast (b :: byte) :: 16 word)"
proof -
  have "unat b < 256" using unsigned_less [of b, where ?'a = nat] by simp
  moreover from this have "unat (ucast b :: 16 word) = unat b" by (simp add: unsigned_ucast_eq take_bit_nat_eq_self)
  ultimately show ?thesis by (simp add: word_less_nat_alt)
qed

lemma ucast_ucast_byte: "(ucast (ucast (b :: byte) :: 16 word) :: byte) = b"
  by (rule bit_word_eqI) (auto simp add: bit_ucast_iff dest: bit_imp_le_length)

lemma btoa_fromCharCode: "btoa (fromCharCode bs) = Inr (base64 bs)"
proof -
  have "\<not> list_ex (\<lambda>u. 0xFF < u) (map ucast bs :: 16 word list)"
    by (simp add: list_ex_iff ucast_byte_le)
  moreover have "map ucast (map ucast bs :: 16 word list) = bs"
    by (simp add: o_def ucast_ucast_byte)
  ultimately show ?thesis by (simp add: btoa_def fromCharCode_def)
qed

lemma utf8_bytes_not_Nil: "utf8_bytes cp \<noteq> []"
  by (simp add: utf8_bytes_def)

lemma encode_Nil_iff: "encode s = [] \<longleftrightarrow> s = []"
  by (cases s rule: encode.cases) (simp_all add: encode_unit_def encode_pair_def utf8_bytes_not_Nil)

lemma encode_lone: "encode [0xD800] = encode [0xD801]"
  by (simp add: encode_unit_def is_high_surrogate_def is_low_surrogate_def)

subsection \<open>Base64 is injective\<close>

lemma b64_alphabet_length: "length b64_alphabet = 64"
  by (simp add: b64_alphabet_def js_def)

lemma b64_alphabet_distinct: "distinct b64_alphabet"
  by (simp add: b64_alphabet_def js_def)

lemma b64_pad_not_in: "b64_pad \<notin> set b64_alphabet"
  by (simp add: b64_alphabet_def js_def b64_pad_def)

lemma b64_char_inj: "n < 64 \<Longrightarrow> m < 64 \<Longrightarrow> b64_char n = b64_char m \<longleftrightarrow> n = m"
  by (simp add: b64_char_def nth_eq_iff_index_eq b64_alphabet_distinct b64_alphabet_length)

lemma b64_char_not_pad: "n < 64 \<Longrightarrow> b64_char n \<noteq> b64_pad"
proof
  assume "n < 64" and "b64_char n = b64_pad"
  then have "b64_pad \<in> set b64_alphabet"
    using nth_mem [of n b64_alphabet] by (simp add: b64_char_def b64_alphabet_length)
  then show False using b64_pad_not_in by simp
qed

lemma byte_bound: "unat (b :: byte) < 256"
  using unsigned_less [of b, where ?'a = nat] by simp

lemma byte_eqI: "unat (a :: byte) = unat b \<Longrightarrow> a = b"
  by (simp add: word_unat_eq_iff)


lemma sextet_pair:
  fixes x y x' y' k :: nat
  assumes "y < k" and "y' < k" and "x * k + y = x' * k + y'"
  shows "x = x' \<and> y = y'"
proof -
  have "(x * k + y) div k = x" and "(x * k + y) mod k = y" using assms(1) by simp_all
  moreover have "(x' * k + y') div k = x'" and "(x' * k + y') mod k = y'"
    using assms(2) by simp_all
  ultimately show ?thesis using assms(3) by metis
qed

lemma div_mod_eqI:
  fixes a a' k :: nat
  assumes "a div k = a' div k" and "a mod k = a' mod k"
  shows "a = a'"
  using assms by (metis div_mult_mod_eq)

lemma byte_div_bound: "unat (b :: byte) div 16 < 16" "unat (b :: byte) div 64 < 4"
  using byte_bound [of b] by simp_all

lemma sextets1:
  assumes "unat (a :: byte) div 4 = unat (a' :: byte) div 4"
    and "unat a mod 4 * 16 = unat a' mod 4 * 16"
  shows "a = a'"
proof -
  from assms(2) have "unat a mod 4 = unat a' mod 4" by simp
  with assms(1) have "unat a = unat a'" by (rule div_mod_eqI)
  then show ?thesis by (rule byte_eqI)
qed

lemma sextets2:
  assumes "unat (a :: byte) div 4 = unat (a' :: byte) div 4"
    and "unat a mod 4 * 16 + unat (b :: byte) div 16 = unat a' mod 4 * 16 + unat (b' :: byte) div 16"
    and "unat b mod 16 * 4 = unat b' mod 16 * 4"
  shows "a = a' \<and> b = b'"
proof -
  from sextet_pair [OF byte_div_bound(1) byte_div_bound(1) assms(2)]
  have ab: "unat a mod 4 = unat a' mod 4" "unat b div 16 = unat b' div 16" by simp_all
  from assms(3) have b: "unat b mod 16 = unat b' mod 16" by simp
  have "unat a = unat a'" using assms(1) ab(1) by (rule div_mod_eqI)
  moreover have "unat b = unat b'" using ab(2) b by (rule div_mod_eqI)
  ultimately show ?thesis by (simp add: byte_eqI)
qed

lemma sextets3:
  assumes "unat (a :: byte) div 4 = unat (a' :: byte) div 4"
    and "unat a mod 4 * 16 + unat (b :: byte) div 16 = unat a' mod 4 * 16 + unat (b' :: byte) div 16"
    and "unat b mod 16 * 4 + unat (c :: byte) div 64 = unat b' mod 16 * 4 + unat (c' :: byte) div 64"
    and "unat c mod 64 = unat c' mod 64"
  shows "a = a' \<and> b = b' \<and> c = c'"
proof -
  from sextet_pair [OF byte_div_bound(1) byte_div_bound(1) assms(2)]
  have ab: "unat a mod 4 = unat a' mod 4" "unat b div 16 = unat b' div 16" by simp_all
  from sextet_pair [OF byte_div_bound(2) byte_div_bound(2) assms(3)]
  have bc: "unat b mod 16 = unat b' mod 16" "unat c div 64 = unat c' div 64" by simp_all
  have "unat a = unat a'" using assms(1) ab(1) by (rule div_mod_eqI)
  moreover have "unat b = unat b'" using ab(2) bc(1) by (rule div_mod_eqI)
  moreover have "unat c = unat c'" using bc(2) assms(4) by (rule div_mod_eqI)
  ultimately show ?thesis by (simp add: byte_eqI)
qed

lemma sextet_bounds:
  "unat (a :: byte) div 4 < 64"
  "unat (a :: byte) mod 4 * 16 + unat (b :: byte) div 16 < 64"
  "unat (a :: byte) mod 4 * 16 < 64"
  "unat (b :: byte) mod 16 * 4 + unat (c :: byte) div 64 < 64"
  "unat (b :: byte) mod 16 * 4 < 64"
  "unat (c :: byte) mod 64 < 64"
proof -
  have "unat a mod 4 < 4" "unat b mod 16 < 16" by simp_all
  then have "unat a mod 4 \<le> 3" "unat b mod 16 \<le> 15" by linarith+
  then show "unat a div 4 < 64" "unat a mod 4 * 16 + unat b div 16 < 64"
    "unat a mod 4 * 16 < 64" "unat b mod 16 * 4 + unat c div 64 < 64"
    "unat b mod 16 * 4 < 64" "unat c mod 64 < 64"
    using byte_bound [of a] byte_div_bound [of b] byte_div_bound [of c] by simp_all
qed


lemma base64_Nil_iff: "base64 bs = [] \<longleftrightarrow> bs = []"
  by (cases bs rule: base64.cases) simp_all

lemma b64_pad_not_char: "n < 64 \<Longrightarrow> b64_pad \<noteq> b64_char n"
  using b64_char_not_pad [of n] by auto

lemmas b64_simps = b64_char_inj b64_char_not_pad b64_pad_not_char sextet_bounds

lemma base64_inj: "base64 xs = base64 ys \<Longrightarrow> xs = ys"
proof (induction xs arbitrary: ys rule: base64.induct)
  case 1
  then show ?case using base64_Nil_iff [of ys] by simp
next
  case (2 a)
  then show ?case
    by (cases ys rule: base64.cases) (auto simp add: b64_simps dest: sextets1)
next
  case (3 a b)
  then show ?case
    by (cases ys rule: base64.cases) (auto simp add: b64_simps dest: sextets2)
next
  case (4 a b c rest)
  show ?case
  proof (cases ys rule: base64.cases)
    case (4 a' b' c' rest')
    with "4.prems" have heads: "unat a div 4 = unat a' div 4"
      "unat a mod 4 * 16 + unat b div 16 = unat a' mod 4 * 16 + unat b' div 16"
      "unat b mod 16 * 4 + unat c div 64 = unat b' mod 16 * 4 + unat c' div 64"
      "unat c mod 64 = unat c' mod 64"
      and tails: "base64 rest = base64 rest'"
      by (simp_all add: b64_simps)
    from sextets3 [OF heads] "4.IH" [OF tails] show ?thesis using 4 by simp
  qed (use "4.prems" in \<open>auto simp add: b64_simps\<close>)
qed

lemma hmac_sha256_not_Nil: "hmac_sha256 k m \<noteq> []"
  using length_hmac_sha256 [of k m] by auto

lemma expected_not_Nil: "base64 (hmac_sha256 k m) \<noteq> []"
  by (simp add: base64_Nil_iff hmac_sha256_not_Nil)

section \<open>The signature check (C1)\<close>

lemma validateSignature_empty: "validateSignature [] body sig = Inl DataError"
  by (simp add: validateSignature_def importKey_def)

lemma validateSignature_eq:
  "secret \<noteq> [] \<Longrightarrow>
     validateSignature secret body sig =
       Inr (base64 (hmac_sha256 (encode secret) (encode body)) = sig)"
  by (simp add: validateSignature_def importKey_def encode_Nil_iff sign_def btoa_fromCharCode)

text \<open>
  Claim C1, as the code has it. For a secret that is not empty, \<open>validateSignature\<close> returns
  \<open>true\<close> exactly when the provided signature is the Base64 text of the HMAC-SHA256 digest of
  the UTF-8 bytes of the body, keyed by the UTF-8 bytes of the secret; and once a signature
  is accepted for one secret and body, it is accepted for another pair exactly when that
  pair has the same digest, so a change that changes the digest turns \<open>true\<close> into
  \<open>false\<close>. (With the empty secret the key import throws, and two strings with the same
  UTF-8 bytes are not told apart: see the counterexample.)
\<close>

theorem validateSignature_correct:
  assumes "secret \<noteq> []" and "secret' \<noteq> []"
  shows "validateSignature secret body sig =
           Inr (sig = base64 (hmac_sha256 (encode secret) (encode body))) \<and>
         (validateSignature secret body sig = Inr True \<longrightarrow>
            validateSignature secret' body' sig =
              Inr (hmac_sha256 (encode secret') (encode body') =
                   hmac_sha256 (encode secret) (encode body)))"
  using assms by (auto simp add: validateSignature_eq dest: base64_inj)

theorem validateSignature_correct_witness:
  "[0xD800 :: 16 word] \<noteq> [] \<and> [0xD801 :: 16 word] \<noteq> [] \<and>
   validateSignature [0xD800] (js ''{}'')
     (base64 (hmac_sha256 (encode [0xD800]) (encode (js ''{}'')))) = Inr True \<and>
   validateSignature [0xD801] (js ''{}'')
     (base64 (hmac_sha256 (encode [0xD800]) (encode (js ''{}'')))) = Inr True"
proof -
  let ?sig = "base64 (hmac_sha256 (encode [0xD800]) (encode (js ''{}'')))"
  have ne: "[0xD800 :: 16 word] \<noteq> []" "[0xD801 :: 16 word] \<noteq> []" by simp_all
  note inst = validateSignature_correct [OF ne, of "js ''{}''" ?sig "js ''{}''"]
  from inst have valid: "validateSignature [0xD800] (js ''{}'') ?sig = Inr True"
    by (simp del: encode.simps)
  with inst have "validateSignature [0xD801] (js ''{}'') ?sig =
      Inr (hmac_sha256 (encode [0xD801]) (encode (js ''{}'')) =
           hmac_sha256 (encode [0xD800]) (encode (js ''{}'')))"
    by blast
  then have "validateSignature [0xD801] (js ''{}'') ?sig = Inr True"
    by (simp only: encode_lone [symmetric] simp_thms)
  with valid ne show ?thesis by blast
qed

text \<open>
  Claim C1 as stated fails twice: with the empty secret the signature that equals the
  Base64 text of the digest is not answered \<open>true\<close> (the call throws \<open>DataError\<close>), and
  changing the lone surrogate U+D800 of a secret into U+D801 keeps an accepted signature
  accepted, since both are encoded as U+FFFD.
\<close>

theorem validateSignature_counterexample:
  "validateSignature [] [] (base64 (hmac_sha256 (encode []) (encode []))) \<noteq> Inr True \<and>
   validateSignature [0xD800] [] (base64 (hmac_sha256 (encode [0xD800]) (encode []))) = Inr True \<and>
   [0xD801 :: 16 word] \<noteq> [0xD800] \<and>
   validateSignature [0xD801] [] (base64 (hmac_sha256 (encode [0xD800]) (encode []))) = Inr True"
  by (simp add: validateSignature_empty validateSignature_eq encode_lone del: encode.simps)

lemma sample_request_verified:
  "validateSignature (LINE_CHANNEL_SECRET sample_env) (bodyText sample_request)
     (header_signature sample_request) = Inr True"
  by code_simp

section \<open>The runs of \<open>handleEvent\<close>\<close>

lemma get_prop_truthy: "truthy v \<Longrightarrow> \<exists>w. get_prop v k = Inr w"
  by (cases v) simp_all

lemma get_prop_same: "get_prop v k = Inr w \<Longrightarrow> \<exists>w'. get_prop v k' = Inr w'"
  by (cases v) simp_all

text \<open>Every run of the pipeline stops at one of five places.\<close>

lemma transcribe_shape:
  "(\<exists>err. transcribe n e event message rt = ([], Inl err)) \<or>
   (\<exists>chatId err. transcribe n e event message rt =
      ([Fetch (LoadingStart (LINE_CHANNEL_ACCESS_TOKEN e) chatId)], Inl err)) \<or>
   (\<exists>chatId mid err. transcribe n e event message rt =
      ([Fetch (LoadingStart (LINE_CHANNEL_ACCESS_TOKEN e) chatId),
        Fetch (ContentGet (LINE_CHANNEL_ACCESS_TOKEN e) mid)], Inl err)) \<or>
   (\<exists>chatId mid blob err.
      convert n (Convert (ELEVENLABS_API_KEY e) blob (js ''scribe_v1'') False) = Inl err \<and>
      transcribe n e event message rt =
      ([Fetch (LoadingStart (LINE_CHANNEL_ACCESS_TOKEN e) chatId),
        Fetch (ContentGet (LINE_CHANNEL_ACCESS_TOKEN e) mid),
        Convert (ELEVENLABS_API_KEY e) blob (js ''scribe_v1'') False], Inl err)) \<or>
   (\<exists>chatId mid blob result.
      convert n (Convert (ELEVENLABS_API_KEY e) blob (js ''scribe_v1'') False) = Inr result \<and>
      transcribe n e event message rt =
      ([Fetch (LoadingStart (LINE_CHANNEL_ACCESS_TOKEN e) chatId),
        Fetch (ContentGet (LINE_CHANNEL_ACCESS_TOKEN e) mid),
        Convert (ELEVENLABS_API_KEY e) blob (js ''scribe_v1'') False,
        Fetch (ReplyPost (LINE_CHANNEL_ACCESS_TOKEN e) rt [reply_text result])],
       fetch n (ReplyPost (LINE_CHANNEL_ACCESS_TOKEN e) rt [reply_text result])))"
  unfolding transcribe_def Let_def after_def replyText_def reply_text_def
  by (simp split: sum.split)


lemma handleEvent_run:
  "(\<exists>err. handleEvent n e event = ([], Inl err)) \<or>
   (\<exists>rt. get_prop event (js ''replyToken'') = Inr rt \<and>
      handleEvent n e event =
      ([Fetch (ReplyPost (LINE_CHANNEL_ACCESS_TOKEN e) rt
                 [js ''Please send an audio or video message.''])],
       fetch n (ReplyPost (LINE_CHANNEL_ACCESS_TOKEN e) rt
                 [js ''Please send an audio or video message.'']))) \<or>
   (\<exists>chatId err. handleEvent n e event =
      ([Fetch (LoadingStart (LINE_CHANNEL_ACCESS_TOKEN e) chatId)], Inl err)) \<or>
   (\<exists>chatId mid err. handleEvent n e event =
      ([Fetch (LoadingStart (LINE_CHANNEL_ACCESS_TOKEN e) chatId),
        Fetch (ContentGet (LINE_CHANNEL_ACCESS_TOKEN e) mid)], Inl err)) \<or>
   (\<exists>chatId mid blob err.
      convert n (Convert (ELEVENLABS_API_KEY e) blob (js ''scribe_v1'') False) = Inl err \<and>
      handleEvent n e event =
      ([Fetch (LoadingStart (LINE_CHANNEL_ACCESS_TOKEN e) chatId),
        Fetch (ContentGet (LINE_CHANNEL_ACCESS_TOKEN e) mid),
        Convert (ELEVENLABS_API_KEY e) blob (js ''scribe_v1'') False], Inl err)) \<or>
   (\<exists>chatId mid blob result rt.
      get_prop event (js ''replyToken'') = Inr rt \<and>
      convert n (Convert (ELEVENLABS_API_KEY e) blob (js ''scribe_v1'') False) = Inr result \<and>
      handleEvent n e event =
      ([Fetch (LoadingStart (LINE_CHANNEL_ACCESS_TOKEN e) chatId),
        Fetch (ContentGet (LINE_CHANNEL_ACCESS_TOKEN e) mid),
        Convert (ELEVENLABS_API_KEY e) blob (js ''scribe_v1'') False,
        Fetch (ReplyPost (LINE_CHANNEL_ACCESS_TOKEN e) rt [reply_text result])],
       fetch n (ReplyPost (LINE_CHANNEL_ACCESS_TOKEN e) rt [reply_text result])))"
proof (cases "get_prop event (js ''message'')")
  case (Inl err)
  then show ?thesis by (simp add: handleEvent_def)
next
  case message: (Inr message)
  show ?thesis
  proof (cases "get_prop event (js ''replyToken'')")
    case (Inl err)
    with message show ?thesis by (simp add: handleEvent_def)
  next
    case rt: (Inr rt)
    show ?thesis
    proof (cases "(if truthy message then get_prop message (js ''type'') else Inr JUndefined)")
      case (Inl err)
      with message rt show ?thesis by (simp add: handleEvent_def)
    next
      case ty: (Inr ty)
      show ?thesis
      proof (cases "\<not> truthy message \<or> \<not> includes_str [js ''audio'', js ''video''] ty")
        case True
        with message rt ty show ?thesis
          by (simp add: handleEvent_def replyText_def del: includes_str_def)
      next
        case False
        with message rt ty
        have "handleEvent n e event = transcribe n e event message rt"
          by (simp add: handleEvent_def)
        with transcribe_shape [of n e event message rt] rt show ?thesis
          by (elim disjE exE conjE) simp_all
      qed
    qed
  qed
qed

subsection \<open>The response to the loading indicator is not read\<close>

lemma fetch_upd_other:
  "fetch (n\<lparr>fetch := (fetch n)(LoadingStart token chatId := v)\<rparr>) (ContentGet t m) = fetch n (ContentGet t m)"
  "fetch (n\<lparr>fetch := (fetch n)(LoadingStart token chatId := v)\<rparr>) (ReplyPost t rt ms) = fetch n (ReplyPost t rt ms)"
  "convert (n\<lparr>fetch := (fetch n)(LoadingStart token chatId := v)\<rparr>) = convert n"
  by simp_all

lemma replyText_upd:
  "replyText (n\<lparr>fetch := (fetch n)(LoadingStart token chatId := v)\<rparr>) t rt ms = replyText n t rt ms"
  by (simp add: replyText_def)

lemma loading_case_upd:
  assumes "fetch n (LoadingStart token chatId) = Inr r"
  shows "case_sum a (\<lambda>v. b) (fetch (n\<lparr>fetch := (fetch n)(LoadingStart token chatId := Inr r')\<rparr>) (LoadingStart t u)) =
         case_sum a (\<lambda>v. b) (fetch n (LoadingStart t u))"
  using assms by (simp split: sum.split)

lemma transcribe_upd:
  assumes "fetch n (LoadingStart token chatId) = Inr r"
  shows "transcribe (n\<lparr>fetch := (fetch n)(LoadingStart token chatId := Inr r')\<rparr>) e event message rt =
         transcribe n e event message rt"
  unfolding transcribe_def Let_def loading_case_upd [OF assms] fetch_upd_other replyText_upd ..

lemma handleEvent_upd:
  assumes "fetch n (LoadingStart token chatId) = Inr r"
  shows "handleEvent (n\<lparr>fetch := (fetch n)(LoadingStart token chatId := Inr r')\<rparr>) e event =
         handleEvent n e event"
  unfolding handleEvent_def transcribe_upd [OF assms] replyText_upd ..

lemma loading_rejected:
  assumes "get_prop event (js ''message'') = Inr message"
    and "truthy message"
    and "get_prop message (js ''type'') = Inr (JStr (js ''audio'')) \<or>
         get_prop message (js ''type'') = Inr (JStr (js ''video''))"
    and "get_prop event (js ''source'') = Inr source"
    and "get_prop source (js ''userId'') = Inr userId"
    and "fetch n (LoadingStart (LINE_CHANNEL_ACCESS_TOKEN e) userId) = Inl err"
  shows "handleEvent n e event = ([Fetch (LoadingStart (LINE_CHANNEL_ACCESS_TOKEN e) userId)], Inl err)"
proof -
  from assms(1) obtain rt where rt: "get_prop event (js ''replyToken'') = Inr rt"
    by (cases event) auto
  have "handleEvent n e event = transcribe n e event message rt"
    using assms(1-3) rt by (auto simp add: handleEvent_def includes_str_def)
  also have "\<dots> = ([Fetch (LoadingStart (LINE_CHANNEL_ACCESS_TOKEN e) userId)], Inl err)"
    using assms(4-6) by (simp add: transcribe_def)
  finally show ?thesis .
qed

subsection \<open>The sample runs\<close>

lemmas sample_defs =
  handleEvent_def transcribe_def replyText_def after_def template_def includes_str_def
  sample_env_def audio_event_def text_event_def sourceless_event_def media_def bad_request_def
  hello_def js_def

lemma run_audio_hello:
  "handleEvent net_hello sample_env audio_event =
     ([Fetch (LoadingStart (js ''token'') (JStr (js ''U1''))),
       Fetch (ContentGet (js ''token'') (JStr (js ''42''))),
       Convert (js ''key'') [1, 2, 3] (js ''scribe_v1'') False,
       Fetch (ReplyPost (js ''token'') (JStr (js ''r1'')) [js ''[en]: hello''])],
      Inr media)"
  by (simp add: sample_defs net_hello_def)

lemma run_audio_rate_limited:
  "handleEvent net_rate_limited sample_env audio_event =
     ([Fetch (LoadingStart (js ''token'') (JStr (js ''U1''))),
       Fetch (ContentGet (js ''token'') (JStr (js ''42''))),
       Convert (js ''key'') [1, 2, 3] (js ''scribe_v1'') False],
      Inl (ApiError 429 (js ''rate limited'')))"
  by (simp add: sample_defs net_rate_limited_def)

lemma run_audio_loading_down:
  "handleEvent net_loading_down sample_env audio_event =
     ([Fetch (LoadingStart (js ''token'') (JStr (js ''U1'')))], Inl FetchError)"
  by (simp add: sample_defs net_loading_down_def)

lemma run_text:
  "handleEvent net_hello sample_env text_event =
     ([Fetch (ReplyPost (js ''token'') (JStr (js ''r2''))
                [js ''Please send an audio or video message.''])],
      Inr media)"
  by (simp add: sample_defs net_hello_def)

lemma run_sourceless:
  "handleEvent net_hello sample_env sourceless_event = ([], Inl TypeError)"
  by (simp add: sample_defs net_hello_def)

lemma signed_verified:
  "LINE_CHANNEL_SECRET e \<noteq> [] \<Longrightarrow>
     validateSignature (LINE_CHANNEL_SECRET e) (bodyText (signed e body))
       (header_signature (signed e body)) = Inr True"
  by (simp add: signed_def header_signature_def validateSignature_eq expected_not_Nil)

lemma sample_secret: "LINE_CHANNEL_SECRET sample_env \<noteq> []"
  by (simp add: sample_env_def js_def)

lemma parse_two:
  "parse_samples two_events = Inr (JObj [(js ''events'', JArr [audio_event, text_event])])"
  by (simp add: parse_samples_def two_events_def js_def)

lemma parse_faulty:
  "parse_samples faulty_events = Inr (JObj [(js ''events'', JArr [sourceless_event, text_event])])"
  by (simp add: parse_samples_def two_events_def faulty_events_def js_def)

lemma parse_empty_object: "parse_samples (js ''{}'') = Inr (JObj [])"
  by (simp add: parse_samples_def)

lemma parse_malformed: "parse_samples (js ''{'') = Inl SyntaxError"
  by (simp add: parse_samples_def js_def)

lemma dispatch_faulty:
  "dispatch (\<lambda>i. net_hello) sample_env [sourceless_event, text_event] =
     [handleEvent net_hello sample_env sourceless_event, handleEvent net_hello sample_env text_event]"
  by (simp add: dispatch_def)

section \<open>The claims about \<open>handleEvent\<close>\<close>

text \<open>
  Claim C5. An event that can be read (it is not \<open>null\<close> or \<open>undefined\<close>) and whose
  \<open>message\<close> is absent or falsy, or whose \<open>message.type\<close> is neither \<open>audio\<close> nor \<open>video\<close>,
  makes exactly one outbound call: the reply with the fixed text
  \<open>Please send an audio or video message.\<close> and the event's reply token. There is no media
  fetch and no transcription call, and the handler settles as that reply settles.
\<close>

theorem unsupported_event_reply:
  assumes "get_prop event (js ''message'') = Inr message"
    and "get_prop event (js ''replyToken'') = Inr replyToken"
    and "\<not> truthy message \<or>
         (get_prop message (js ''type'') \<noteq> Inr (JStr (js ''audio'')) \<and>
          get_prop message (js ''type'') \<noteq> Inr (JStr (js ''video'')))"
  shows "handleEvent n e event =
           ([Fetch (ReplyPost (LINE_CHANNEL_ACCESS_TOKEN e) replyToken
                      [js ''Please send an audio or video message.''])],
            fetch n (ReplyPost (LINE_CHANNEL_ACCESS_TOKEN e) replyToken
                      [js ''Please send an audio or video message.'']))"
proof (cases "truthy message")
  case False
  with assms(1,2) show ?thesis by (simp add: handleEvent_def replyText_def)
next
  case True
  then obtain ty where ty: "get_prop message (js ''type'') = Inr ty"
    using get_prop_truthy by blast
  with assms(3) True have "\<not> includes_str [js ''audio'', js ''video''] ty"
    by (auto simp add: includes_str_def)
  with assms(1,2) ty True show ?thesis by (simp add: handleEvent_def replyText_def)
qed

theorem unsupported_event_reply_witness:
  "get_prop text_event (js ''message'') =
     Inr (JObj [(js ''type'', JStr (js ''text'')), (js ''id'', JStr (js ''43''))]) \<and>
   get_prop text_event (js ''replyToken'') = Inr (JStr (js ''r2'')) \<and>
   get_prop (JObj [(js ''type'', JStr (js ''text'')), (js ''id'', JStr (js ''43''))]) (js ''type'')
     \<noteq> Inr (JStr (js ''audio'')) \<and>
   get_prop (JObj [(js ''type'', JStr (js ''text'')), (js ''id'', JStr (js ''43''))]) (js ''type'')
     \<noteq> Inr (JStr (js ''video'')) \<and>
   handleEvent net_hello sample_env text_event =
     ([Fetch (ReplyPost (js ''token'') (JStr (js ''r2''))
                [js ''Please send an audio or video message.''])],
      Inr media)"
proof -
  let ?m = "JObj [(js ''type'', JStr (js ''text'')), (js ''id'', JStr (js ''43''))]"
  have m: "get_prop text_event (js ''message'') = Inr ?m"
    by (simp add: text_event_def js_def)
  have rt: "get_prop text_event (js ''replyToken'') = Inr (JStr (js ''r2''))"
    by (simp add: text_event_def js_def)
  have ty: "get_prop ?m (js ''type'') \<noteq> Inr (JStr (js ''audio'')) \<and>
            get_prop ?m (js ''type'') \<noteq> Inr (JStr (js ''video''))"
    by (simp add: js_def)
  from unsupported_event_reply [OF m rt disjI2, OF ty, of net_hello sample_env]
  have "handleEvent net_hello sample_env text_event =
     ([Fetch (ReplyPost (js ''token'') (JStr (js ''r2''))
                [js ''Please send an audio or video message.''])],
      Inr media)"
    by (simp add: sample_env_def net_hello_def)
  with m rt ty show ?thesis by blast
qed

text \<open>
  Claim C6. When the pipeline has called the transcription client and the call returned
  a result with language code \<open>languageCode\<close>, the run holds exactly one reply; it carries
  the event's reply token and the one text \<open>[languageCode]: t\<close>, where \<open>t\<close> is the result's
  text, or \<open>Could not transcribe the message.\<close> when the text is empty or absent. The
  witness is the result \<open>{text: "hello", language_code: "en"}\<close>, answered \<open>[en]: hello\<close>.
\<close>

theorem transcription_reply:
  assumes "get_prop event (js ''replyToken'') = Inr replyToken"
    and "Convert k f m t \<in> set (fst (handleEvent n e event))"
    and "convert n (Convert k f m t) = Inr result"
    and "language_code result = Some languageCode"
  shows "filter is_reply (fst (handleEvent n e event)) =
           [Fetch (ReplyPost (LINE_CHANNEL_ACCESS_TOKEN e) replyToken
              [js ''['' @ languageCode @ js '']: '' @
               (case result_text result of
                  None \<Rightarrow> js ''Could not transcribe the message.''
                | Some x \<Rightarrow> if x \<noteq> [] then x else js ''Could not transcribe the message.'')])]"
  using handleEvent_run [of n e event] assms
  by (elim disjE exE conjE) (auto simp add: reply_text_def template_def)

theorem transcription_reply_witness:
  "get_prop audio_event (js ''replyToken'') = Inr (JStr (js ''r1'')) \<and>
   Convert (js ''key'') [1, 2, 3] (js ''scribe_v1'') False
     \<in> set (fst (handleEvent net_hello sample_env audio_event)) \<and>
   convert net_hello (Convert (js ''key'') [1, 2, 3] (js ''scribe_v1'') False) = Inr hello \<and>
   language_code hello = Some (js ''en'') \<and>
   result_text hello = Some (js ''hello'') \<and>
   filter is_reply (fst (handleEvent net_hello sample_env audio_event)) =
     [Fetch (ReplyPost (js ''token'') (JStr (js ''r1'')) [js ''[en]: hello''])]"
proof -
  have rt: "get_prop audio_event (js ''replyToken'') = Inr (JStr (js ''r1''))"
    by (simp add: audio_event_def js_def)
  have c: "Convert (js ''key'') [1, 2, 3] (js ''scribe_v1'') False
             \<in> set (fst (handleEvent net_hello sample_env audio_event))"
    by (simp add: run_audio_hello)
  have r: "convert net_hello (Convert (js ''key'') [1, 2, 3] (js ''scribe_v1'') False) = Inr hello"
    by (simp add: net_hello_def)
  have l: "language_code hello = Some (js ''en'')" and x: "result_text hello = Some (js ''hello'')"
    by (simp_all add: hello_def)
  from transcription_reply [OF rt c r l]
  have "filter is_reply (fst (handleEvent net_hello sample_env audio_event)) =
          [Fetch (ReplyPost (js ''token'') (JStr (js ''r1'')) [js ''[en]: hello''])]"
    by (simp add: x sample_env_def js_def)
  with rt c r l x show ?thesis by blast
qed

text \<open>
  Claim C7 asks for a reply that quotes the service's error. The code has none: when the
  transcription call fails, the client throws, the handler rejects with that error, and
  the run holds no reply at all. The witness is the response 429 \<open>rate limited\<close>.
\<close>

theorem transcription_failure_no_reply:
  assumes "Convert k f m t \<in> set (fst (handleEvent n e event))"
    and "convert n (Convert k f m t) = Inl err"
  shows "filter is_reply (fst (handleEvent n e event)) = [] \<and>
         snd (handleEvent n e event) = Inl err"
  using handleEvent_run [of n e event] assms
  by (elim disjE exE conjE) auto

theorem transcription_failure_no_reply_witness:
  "Convert (js ''key'') [1, 2, 3] (js ''scribe_v1'') False
     \<in> set (fst (handleEvent net_rate_limited sample_env audio_event)) \<and>
   convert net_rate_limited (Convert (js ''key'') [1, 2, 3] (js ''scribe_v1'') False) =
     Inl (ApiError 429 (js ''rate limited'')) \<and>
   filter is_reply (fst (handleEvent net_rate_limited sample_env audio_event)) = [] \<and>
   snd (handleEvent net_rate_limited sample_env audio_event) =
     Inl (ApiError 429 (js ''rate limited''))"
proof -
  have c: "Convert (js ''key'') [1, 2, 3] (js ''scribe_v1'') False
             \<in> set (fst (handleEvent net_rate_limited sample_env audio_event))"
    by (simp add: run_audio_rate_limited)
  have r: "convert net_rate_limited (Convert (js ''key'') [1, 2, 3] (js ''scribe_v1'') False) =
             Inl (ApiError 429 (js ''rate limited''))"
    by (simp add: net_rate_limited_def)
  from transcription_failure_no_reply [OF c r] c r show ?thesis by blast
qed

text \<open>
  Claim C8, as the code has it. The response of the loading-indicator call is never read:
  whatever response it resolves to, success or not, the run of the handler is the same.
  But the call is awaited with no handler for a rejection: when its \<open>fetch\<close> rejects, an
  audio or video event's handler rejects after that one call.
\<close>

theorem loading_indicator_failure:
  "(fetch n (LoadingStart token chatId) = Inr r \<longrightarrow>
      handleEvent (n\<lparr>fetch := (fetch n)(LoadingStart token chatId := Inr r')\<rparr>) e event =
      handleEvent n e event) \<and>
   (get_prop event (js ''message'') = Inr message \<and> truthy message \<and>
    (get_prop message (js ''type'') = Inr (JStr (js ''audio'')) \<or>
     get_prop message (js ''type'') = Inr (JStr (js ''video''))) \<and>
    get_prop event (js ''source'') = Inr source \<and>
    get_prop source (js ''userId'') = Inr userId \<and>
    fetch m (LoadingStart (LINE_CHANNEL_ACCESS_TOKEN e) userId) = Inl err \<longrightarrow>
      handleEvent m e event =
        ([Fetch (LoadingStart (LINE_CHANNEL_ACCESS_TOKEN e) userId)], Inl err))"
  using handleEvent_upd loading_rejected by blast

theorem loading_indicator_failure_witness:
  "fetch net_loading_refused (LoadingStart (js ''token'') (JStr (js ''U1''))) = Inr bad_request \<and>
   handleEvent (net_loading_refused\<lparr>fetch := (fetch net_loading_refused)
       (LoadingStart (js ''token'') (JStr (js ''U1'')) := Inr media)\<rparr>) sample_env audio_event =
     handleEvent net_loading_refused sample_env audio_event \<and>
   fetch net_loading_down (LoadingStart (LINE_CHANNEL_ACCESS_TOKEN sample_env) (JStr (js ''U1''))) =
     Inl FetchError \<and>
   handleEvent net_loading_down sample_env audio_event =
     ([Fetch (LoadingStart (LINE_CHANNEL_ACCESS_TOKEN sample_env) (JStr (js ''U1'')))], Inl FetchError)"
proof -
  let ?m = "JObj [(js ''type'', JStr (js ''audio'')), (js ''id'', JStr (js ''42''))]"
  let ?s = "JObj [(js ''userId'', JStr (js ''U1''))]"
  have r: "fetch net_loading_refused (LoadingStart (js ''token'') (JStr (js ''U1''))) = Inr bad_request"
    by (simp add: net_loading_refused_def)
  have ev: "get_prop audio_event (js ''message'') = Inr ?m" "truthy ?m"
    "get_prop ?m (js ''type'') = Inr (JStr (js ''audio''))"
    "get_prop audio_event (js ''source'') = Inr ?s"
    "get_prop ?s (js ''userId'') = Inr (JStr (js ''U1''))"
    by (simp_all add: audio_event_def js_def)
  have d: "fetch net_loading_down (LoadingStart (LINE_CHANNEL_ACCESS_TOKEN sample_env) (JStr (js ''U1''))) =
             Inl FetchError"
    by (simp add: net_loading_down_def)
  from loading_indicator_failure [where n = net_loading_refused and token = "js ''token''"
      and chatId = "JStr (js ''U1'')" and r = bad_request and r' = media and e = sample_env
      and event = audio_event and message = ?m and source = ?s and userId = "JStr (js ''U1'')"
      and m = net_loading_down and err = FetchError] r ev d
  show ?thesis by blast
qed

text \<open>
  Claim C8 as stated fails when the indicator cannot be reached: the handler stops after
  the loading call, with no media fetch, no transcription and no reply, while with the
  same network and a reachable indicator all four calls are made.
\<close>

theorem loading_indicator_failure_counterexample:
  "handleEvent net_loading_down sample_env audio_event =
     ([Fetch (LoadingStart (js ''token'') (JStr (js ''U1'')))], Inl FetchError) \<and>
   handleEvent net_hello sample_env audio_event =
     ([Fetch (LoadingStart (js ''token'') (JStr (js ''U1''))),
       Fetch (ContentGet (js ''token'') (JStr (js ''42''))),
       Convert (js ''key'') [1, 2, 3] (js ''scribe_v1'') False,
       Fetch (ReplyPost (js ''token'') (JStr (js ''r1'')) [js ''[en]: hello''])],
      Inr media)"
  by (simp add: run_audio_loading_down run_audio_hello)

text \<open>
  Claim C9. Every run of \<open>handleEvent\<close> holds at most one reply call, and a reply call in
  it carries the reply token read from the event.
\<close>

theorem at_most_one_reply:
  "length (filter is_reply (fst (handleEvent n e event))) \<le> 1 \<and>
   (\<forall>c \<in> set (fst (handleEvent n e event)).
      \<forall>token replyToken messages.
        c = Fetch (ReplyPost token replyToken messages) \<longrightarrow>
        get_prop event (js ''replyToken'') = Inr replyToken)"
  using handleEvent_run [of n e event]
  by (elim disjE exE conjE) auto

theorem at_most_one_reply_witness:
  "length (filter is_reply (fst (handleEvent net_hello sample_env audio_event))) \<le> 1 \<and>
   Fetch (ReplyPost (js ''token'') (JStr (js ''r1'')) [js ''[en]: hello''])
     \<in> set (fst (handleEvent net_hello sample_env audio_event)) \<and>
   get_prop audio_event (js ''replyToken'') = Inr (JStr (js ''r1''))"
proof -
  have c: "Fetch (ReplyPost (js ''token'') (JStr (js ''r1'')) [js ''[en]: hello''])
             \<in> set (fst (handleEvent net_hello sample_env audio_event))"
    by (simp add: run_audio_hello)
  from at_most_one_reply [of net_hello sample_env audio_event] c show ?thesis by blast
qed

text \<open>
  Claim C10. For an audio or video event, the handler faults before any outbound call
  (a \<open>TypeError\<close> from \<open>event.source.userId\<close>, so no reply is attempted) exactly when
  \<open>event.source\<close> is absent or \<open>null\<close>. The witness is an audio event with no \<open>source\<close>.
\<close>

theorem missing_source_faults:
  assumes "get_prop event (js ''message'') = Inr message"
    and "truthy message"
    and "get_prop message (js ''type'') = Inr (JStr (js ''audio'')) \<or>
         get_prop message (js ''type'') = Inr (JStr (js ''video''))"
  shows "handleEvent n e event = ([], Inl TypeError) \<longleftrightarrow>
         get_prop event (js ''source'') = Inr JUndefined \<or>
         get_prop event (js ''source'') = Inr JNull"
proof -
  from assms(1) obtain rt where rt: "get_prop event (js ''replyToken'') = Inr rt"
    using get_prop_same by blast
  from assms(1) obtain src where src: "get_prop event (js ''source'') = Inr src"
    using get_prop_same by blast
  have run: "handleEvent n e event = transcribe n e event message rt"
    using assms rt by (auto simp add: handleEvent_def includes_str_def)
  show ?thesis
  proof (cases "src = JUndefined \<or> src = JNull")
    case True
    then show ?thesis using run src by (auto simp add: transcribe_def)
  next
    case False
    then obtain uid where uid: "get_prop src (js ''userId'') = Inr uid"
      by (cases src) auto
    have "fst (transcribe n e event message rt) \<noteq> []"
      unfolding transcribe_def Let_def after_def replyText_def
      by (simp add: src uid split: sum.split)
    then show ?thesis using run src False by auto
  qed
qed

theorem missing_source_faults_witness:
  "get_prop sourceless_event (js ''message'') =
     Inr (JObj [(js ''type'', JStr (js ''audio'')), (js ''id'', JStr (js ''44''))]) \<and>
   truthy (JObj [(js ''type'', JStr (js ''audio'')), (js ''id'', JStr (js ''44''))]) \<and>
   get_prop (JObj [(js ''type'', JStr (js ''audio'')), (js ''id'', JStr (js ''44''))]) (js ''type'') =
     Inr (JStr (js ''audio'')) \<and>
   get_prop sourceless_event (js ''source'') = Inr JUndefined \<and>
   handleEvent net_hello sample_env sourceless_event = ([], Inl TypeError)"
proof -
  let ?m = "JObj [(js ''type'', JStr (js ''audio'')), (js ''id'', JStr (js ''44''))]"
  have m: "get_prop sourceless_event (js ''message'') = Inr ?m"
    by (simp add: sourceless_event_def js_def)
  have t: "truthy ?m" by simp
  have ty: "get_prop ?m (js ''type'') = Inr (JStr (js ''audio''))"
    by (simp add: js_def)
  have s: "get_prop sourceless_event (js ''source'') = Inr JUndefined"
    by (simp add: sourceless_event_def js_def)
  from missing_source_faults [OF m t disjI1, OF ty, of net_hello sample_env] s
  have "handleEvent net_hello sample_env sourceless_event = ([], Inl TypeError)"
    by blast
  with m t ty s show ?thesis by blast
qed

section \<open>Facts about the webhook route\<close>

lemma webhook_rejected:
  assumes "validateSignature (LINE_CHANNEL_SECRET e) (bodyText req) (header_signature req) = Inr False"
  shows "webhook JSON_parse nets e req =
           \<lparr>outcome = Responded 401 (js ''Invalid signature''), parsed = False, handlers = []\<rparr>"
  using assms by (simp add: webhook_def)

lemma webhook_threw:
  assumes "validateSignature (LINE_CHANNEL_SECRET e) (bodyText req) (header_signature req) = Inl err"
  shows "webhook JSON_parse nets e req = \<lparr>outcome = Threw [err], parsed = False, handlers = []\<rparr>"
  using assms by (simp add: webhook_def)

lemma webhook_verified:
  assumes "validateSignature (LINE_CHANNEL_SECRET e) (bodyText req) (header_signature req) = Inr True"
  shows "webhook JSON_parse nets e req =
     (case JSON_parse (bodyText req) of
        Inl err \<Rightarrow> \<lparr>outcome = Threw [err], parsed = True, handlers = []\<rparr>
      | Inr body \<Rightarrow>
     (case get_prop body (js ''events'') of
        Inl err \<Rightarrow> \<lparr>outcome = Threw [err], parsed = True, handlers = []\<rparr>
      | Inr evs \<Rightarrow>
     (case (if truthy evs then evs else JArr []) of
        JArr events \<Rightarrow>
          \<lparr>outcome = (if rejections (dispatch nets e events) = [] then Responded 200 (js ''OK'')
                      else Threw (rejections (dispatch nets e events))),
           parsed = True, handlers = dispatch nets e events\<rparr>
      | _ \<Rightarrow> \<lparr>outcome = Threw [TypeError], parsed = True, handlers = []\<rparr>)))"
  using assms by (simp add: webhook_def dispatch_def Let_def split: sum.split jsvalue.split)

lemma rejections_Nil_iff: "rejections rs = [] \<longleftrightarrow> (\<forall>r \<in> set rs. fulfilled r)"
  by (induction rs) (auto simp add: rejections_def fulfilled_def split: sum.splits)

lemma length_dispatch: "length (dispatch nets e events) = length events"
  by (simp add: dispatch_def)

lemma nth_dispatch:
  "i < length events \<Longrightarrow> dispatch nets e events ! i = handleEvent (nets i) e (events ! i)"
  by (simp add: dispatch_def nth_enumerate_eq)

lemma dispatch_Nil: "dispatch nets e [] = []"
  by (simp add: dispatch_def)

lemma rejections_Nil: "rejections [] = []"
  by (simp add: rejections_def)

section \<open>The claims about the webhook route\<close>

text \<open>
  Claim C2, for a channel secret that is set. A request whose \<open>x-line-signature\<close> header is
  missing, empty, or different from the expected signature of the body is answered with
  status 401 and the body \<open>Invalid signature\<close>; \<open>JSON.parse\<close> is not called and no handler
  runs, so no outbound call is made.
\<close>

theorem invalid_signature_401:
  assumes "LINE_CHANNEL_SECRET e \<noteq> []"
    and "x_line_signature req = None \<or> x_line_signature req = Some [] \<or>
         x_line_signature req \<noteq>
           Some (base64 (hmac_sha256 (encode (LINE_CHANNEL_SECRET e)) (encode (bodyText req))))"
  shows "webhook JSON_parse nets e req =
           \<lparr>outcome = Responded 401 (js ''Invalid signature''), parsed = False, handlers = []\<rparr>"
proof -
  let ?expected = "base64 (hmac_sha256 (encode (LINE_CHANNEL_SECRET e)) (encode (bodyText req)))"
  have "header_signature req \<noteq> ?expected"
    using assms(2) expected_not_Nil [of "encode (LINE_CHANNEL_SECRET e)" "encode (bodyText req)"]
    by (auto simp add: header_signature_def split: option.splits if_splits)
  then have "validateSignature (LINE_CHANNEL_SECRET e) (bodyText req) (header_signature req) = Inr False"
    using assms(1) by (auto simp add: validateSignature_eq)
  then show ?thesis by (rule webhook_rejected)
qed

theorem invalid_signature_401_witness:
  "LINE_CHANNEL_SECRET sample_env \<noteq> [] \<and>
   x_line_signature (unsigned (js ''{}'')) = None \<and>
   webhook parse_samples (\<lambda>i. net_hello) sample_env (unsigned (js ''{}'')) =
     \<lparr>outcome = Responded 401 (js ''Invalid signature''), parsed = False, handlers = []\<rparr>"
proof -
  have none: "x_line_signature (unsigned (js ''{}'')) = None" by (simp add: unsigned_def)
  from invalid_signature_401 [OF sample_secret disjI1, OF none] none sample_secret
  show ?thesis by simp
qed

text \<open>
  Claim C2 as stated fails when the channel secret is empty (or not set, which encodes to
  the same empty key): the key import throws, so a request with no signature header is
  not answered 401. Nothing is parsed and no handler runs there either.
\<close>

theorem invalid_signature_401_counterexample:
  "x_line_signature (unsigned (js ''{}'')) = None \<and>
   webhook parse_samples (\<lambda>i. net_hello) unset_env (unsigned (js ''{}'')) =
     \<lparr>outcome = Threw [DataError], parsed = False, handlers = []\<rparr>"
  by (simp add: unsigned_def unset_env_def webhook_threw validateSignature_empty)

text \<open>
  Claim C3, as the code has it. For a verified request the route never answers 401. When
  \<open>JSON.parse\<close> throws, the route throws. When the body has an array of events, the run of
  the \<open>i\<close>-th handler is that of \<open>handleEvent\<close> on the \<open>i\<close>-th event and its own network,
  whatever its siblings do; the route answers 200 \<open>OK\<close> when every handler fulfils, and
  throws with a handler's rejection otherwise.
\<close>

theorem verified_outcomes:
  assumes "validateSignature (LINE_CHANNEL_SECRET e) (bodyText req) (header_signature req) = Inr True"
  shows "(JSON_parse (bodyText req) = Inl err \<longrightarrow>
            outcome (webhook JSON_parse nets e req) = Threw [err]) \<and>
         (JSON_parse (bodyText req) = Inr body \<and>
          get_prop body (js ''events'') = Inr (JArr events) \<longrightarrow>
            (\<forall>i < length events.
               handlers (webhook JSON_parse nets e req) ! i = handleEvent (nets i) e (events ! i)) \<and>
            outcome (webhook JSON_parse nets e req) =
              (if \<forall>r \<in> set (handlers (webhook JSON_parse nets e req)). fulfilled r
               then Responded 200 (js ''OK'')
               else Threw (rejections (handlers (webhook JSON_parse nets e req))))) \<and>
         outcome (webhook JSON_parse nets e req) \<noteq> Responded 401 (js ''Invalid signature'')"
  unfolding webhook_verified [OF assms]
  by (auto simp add: nth_dispatch rejections_Nil_iff split: sum.split jsvalue.split)

theorem verified_outcomes_witness:
  "validateSignature (LINE_CHANNEL_SECRET sample_env) (bodyText (signed sample_env faulty_events))
     (header_signature (signed sample_env faulty_events)) = Inr True \<and>
   parse_samples (bodyText (signed sample_env faulty_events)) =
     Inr (JObj [(js ''events'', JArr [sourceless_event, text_event])]) \<and>
   handlers (webhook parse_samples (\<lambda>i. net_hello) sample_env (signed sample_env faulty_events)) ! 1 =
     ([Fetch (ReplyPost (js ''token'') (JStr (js ''r2''))
                [js ''Please send an audio or video message.''])], Inr media) \<and>
   outcome (webhook parse_samples (\<lambda>i. net_hello) sample_env (signed sample_env faulty_events)) =
     Threw [TypeError] \<and>
   parse_samples (bodyText (signed sample_env (js ''{''))) = Inl SyntaxError \<and>
   outcome (webhook parse_samples (\<lambda>i. net_hello) sample_env (signed sample_env (js ''{''))) =
     Threw [SyntaxError]"
proof -
  let ?req = "signed sample_env faulty_events"
  let ?w = "webhook parse_samples (\<lambda>i. net_hello) sample_env ?req"
  let ?bad = "signed sample_env (js ''{'')"
  have v: "validateSignature (LINE_CHANNEL_SECRET sample_env) (bodyText (signed sample_env b))
             (header_signature (signed sample_env b)) = Inr True" for b
    by (rule signed_verified [OF sample_secret])
  have p: "parse_samples (bodyText ?req) =
             Inr (JObj [(js ''events'', JArr [sourceless_event, text_event])])"
    by (simp add: signed_def parse_faulty)
  have g: "get_prop (JObj [(js ''events'', JArr [sourceless_event, text_event])]) (js ''events'') =
             Inr (JArr [sourceless_event, text_event])"
    by simp
  from verified_outcomes [OF v, where JSON_parse = parse_samples and nets = "\<lambda>i. net_hello"
      and body = "JObj [(js ''events'', JArr [sourceless_event, text_event])]"
      and events = "[sourceless_event, text_event]"] p g
  have h: "\<forall>i < length [sourceless_event, text_event].
             handlers ?w ! i = handleEvent net_hello sample_env ([sourceless_event, text_event] ! i)"
    and o: "outcome ?w = (if \<forall>r \<in> set (handlers ?w). fulfilled r then Responded 200 (js ''OK'')
                          else Threw (rejections (handlers ?w)))"
    by blast+
  from h have h1: "handlers ?w ! 1 = ([Fetch (ReplyPost (js ''token'') (JStr (js ''r2''))
                [js ''Please send an audio or video message.''])], Inr media)"
    by (simp add: run_text)
  have "handlers ?w = dispatch (\<lambda>i. net_hello) sample_env [sourceless_event, text_event]"
    by (simp add: webhook_verified [OF v] p)
  then have "handlers ?w = [([], Inl TypeError),
               ([Fetch (ReplyPost (js ''token'') (JStr (js ''r2''))
                  [js ''Please send an audio or video message.''])], Inr media)]"
    by (simp add: dispatch_faulty run_sourceless run_text)
  with o have thrown: "outcome ?w = Threw [TypeError]"
    by (simp add: fulfilled_def rejections_def)
  have q: "parse_samples (bodyText ?bad) = Inl SyntaxError"
    by (simp add: signed_def parse_malformed)
  from verified_outcomes [OF v, where JSON_parse = parse_samples and nets = "\<lambda>i. net_hello"
      and err = SyntaxError] q
  have "outcome (webhook parse_samples (\<lambda>i. net_hello) sample_env ?bad) = Threw [SyntaxError]"
    by blast
  with v p h1 thrown q show ?thesis by blast
qed

text \<open>
  Claim C3 as stated fails: a verified request in which one event has no \<open>source\<close>, and
  a verified request whose body is the malformed text \<open>{\<close>, are answered neither 401 nor
  200; the route throws.
\<close>

theorem verified_outcomes_counterexample:
  "validateSignature (LINE_CHANNEL_SECRET sample_env) (bodyText (signed sample_env faulty_events))
     (header_signature (signed sample_env faulty_events)) = Inr True \<and>
   outcome (webhook parse_samples (\<lambda>i. net_hello) sample_env (signed sample_env faulty_events)) =
     Threw [TypeError] \<and>
   validateSignature (LINE_CHANNEL_SECRET sample_env) (bodyText (signed sample_env (js ''{'')))
     (header_signature (signed sample_env (js ''{''))) = Inr True \<and>
   outcome (webhook parse_samples (\<lambda>i. net_hello) sample_env (signed sample_env (js ''{''))) =
     Threw [SyntaxError]"
proof -
  have v: "validateSignature (LINE_CHANNEL_SECRET sample_env) (bodyText (signed sample_env b))
             (header_signature (signed sample_env b)) = Inr True" for b
    by (rule signed_verified [OF sample_secret])
  have "outcome (webhook parse_samples (\<lambda>i. net_hello) sample_env (signed sample_env faulty_events)) =
          Threw [TypeError]"
    unfolding webhook_verified [OF v]
    by (simp add: signed_def parse_faulty dispatch_faulty run_sourceless run_text rejections_def)
  moreover
  have "outcome (webhook parse_samples (\<lambda>i. net_hello) sample_env (signed sample_env (js ''{''))) =
          Threw [SyntaxError]"
    unfolding webhook_verified [OF v]
    by (simp add: signed_def parse_malformed)
  ultimately show ?thesis using v by blast
qed

text \<open>
  Claim C4. For a verified request \<open>JSON.parse\<close> is called. When the parsed body has no
  \<open>events\<close>, no handler runs and the answer is 200 \<open>OK\<close>. When \<open>events\<close> is an array of
  \<open>N\<close> events there are exactly \<open>N\<close> runs, the \<open>i\<close>-th of them the handler on the \<open>i\<close>-th
  event, and the answer is 200 \<open>OK\<close> only if every one of the \<open>N\<close> runs has fulfilled.
\<close>

theorem dispatch_every_event:
  assumes "validateSignature (LINE_CHANNEL_SECRET e) (bodyText req) (header_signature req) = Inr True"
  shows "parsed (webhook JSON_parse nets e req) \<and>
         (JSON_parse (bodyText req) = Inr body \<and>
          get_prop body (js ''events'') = Inr JUndefined \<longrightarrow>
            handlers (webhook JSON_parse nets e req) = [] \<and>
            outcome (webhook JSON_parse nets e req) = Responded 200 (js ''OK'')) \<and>
         (JSON_parse (bodyText req) = Inr body \<and>
          get_prop body (js ''events'') = Inr (JArr events) \<longrightarrow>
            length (handlers (webhook JSON_parse nets e req)) = length events \<and>
            (\<forall>i < length events.
               handlers (webhook JSON_parse nets e req) ! i = handleEvent (nets i) e (events ! i)) \<and>
            (outcome (webhook JSON_parse nets e req) = Responded 200 (js ''OK'') \<longrightarrow>
               (\<forall>r \<in> set (handlers (webhook JSON_parse nets e req)). fulfilled r)))"
  unfolding webhook_verified [OF assms]
  by (auto simp add: nth_dispatch length_dispatch rejections_Nil_iff dispatch_Nil rejections_Nil
      split: sum.split jsvalue.split if_splits)

theorem dispatch_every_event_witness:
  "validateSignature (LINE_CHANNEL_SECRET sample_env) (bodyText sample_request)
     (header_signature sample_request) = Inr True \<and>
   parse_samples (bodyText sample_request) = Inr (JObj []) \<and>
   get_prop (JObj []) (js ''events'') = Inr JUndefined \<and>
   webhook parse_samples (\<lambda>i. net_hello) sample_env sample_request =
     \<lparr>outcome = Responded 200 (js ''OK''), parsed = True, handlers = []\<rparr> \<and>
   validateSignature (LINE_CHANNEL_SECRET sample_env) (bodyText (signed sample_env two_events))
     (header_signature (signed sample_env two_events)) = Inr True \<and>
   parse_samples (bodyText (signed sample_env two_events)) =
     Inr (JObj [(js ''events'', JArr [audio_event, text_event])]) \<and>
   length (handlers (webhook parse_samples (\<lambda>i. net_hello) sample_env
     (signed sample_env two_events))) = 2 \<and>
   handlers (webhook parse_samples (\<lambda>i. net_hello) sample_env (signed sample_env two_events)) ! 0 =
     handleEvent net_hello sample_env audio_event \<and>
   handlers (webhook parse_samples (\<lambda>i. net_hello) sample_env (signed sample_env two_events)) ! 1 =
     handleEvent net_hello sample_env text_event"
proof -
  let ?w1 = "webhook parse_samples (\<lambda>i. net_hello) sample_env sample_request"
  let ?req = "signed sample_env two_events"
  let ?w2 = "webhook parse_samples (\<lambda>i. net_hello) sample_env ?req"
  have p1: "parse_samples (bodyText sample_request) = Inr (JObj [])"
    by (simp add: sample_request_def parse_empty_object)
  have g1: "get_prop (JObj []) (js ''events'') = Inr JUndefined" by simp
  from dispatch_every_event [OF sample_request_verified, where JSON_parse = parse_samples
      and nets = "\<lambda>i. net_hello" and body = "JObj []"] p1 g1
  have "parsed ?w1" and "handlers ?w1 = []" and "outcome ?w1 = Responded 200 (js ''OK'')"
    by blast+
  then have w1: "?w1 = \<lparr>outcome = Responded 200 (js ''OK''), parsed = True, handlers = []\<rparr>"
    by (cases ?w1) simp
  have v2: "validateSignature (LINE_CHANNEL_SECRET sample_env) (bodyText ?req)
              (header_signature ?req) = Inr True"
    by (rule signed_verified [OF sample_secret])
  have p2: "parse_samples (bodyText ?req) =
              Inr (JObj [(js ''events'', JArr [audio_event, text_event])])"
    by (simp add: signed_def parse_two)
  have g2: "get_prop (JObj [(js ''events'', JArr [audio_event, text_event])]) (js ''events'') =
              Inr (JArr [audio_event, text_event])"
    by simp
  from dispatch_every_event [OF v2, where JSON_parse = parse_samples
      and nets = "\<lambda>i. net_hello"
      and body = "JObj [(js ''events'', JArr [audio_event, text_event])]"
      and events = "[audio_event, text_event]"] p2 g2
  have len: "length (handlers ?w2) = length [audio_event, text_event]"
    and nth: "\<forall>i < length [audio_event, text_event].
                handlers ?w2 ! i = handleEvent net_hello sample_env ([audio_event, text_event] ! i)"
    by blast+
  from nth have "handlers ?w2 ! 0 = handleEvent net_hello sample_env audio_event"
    and "handlers ?w2 ! 1 = handleEvent net_hello sample_env text_event"
    by simp_all
  with len sample_request_verified p1 g1 w1 v2 p2 show ?thesis by simp
qed

end
